theory Spec2Isabelle
  imports Complex_Main "HOL-Library.Word"
begin

section \<open>WakeGuard Web: drowsiness detection (wakeguard-web/app.js)\<close>

text \<open>
  The development embeds the detection logic of \<^verbatim>\<open>app.js\<close>: the geometry helpers
  (\<^verbatim>\<open>distance\<close>, \<^verbatim>\<open>calculateEAR\<close>, \<^verbatim>\<open>getEyeLandmarks\<close>), the alarm functions
  (\<^verbatim>\<open>triggerAlarm\<close>, \<^verbatim>\<open>stopAlarm\<close>, the Web Audio beeper), the rate-limited
  \<^verbatim>\<open>sendSmsAlert\<close>, the per-frame callback \<^verbatim>\<open>onResults\<close>, \<^verbatim>\<open>stopDetection\<close> and the
  click handler that saves the SMS recipient. The module-level variables become the fields
  of one record that every function takes and returns.
\<close>

subsection \<open>JavaScript numbers\<close>

text \<open>
  A JavaScript number is an IEEE 754 binary64 value: a finite double, one of the two
  infinities or \<open>NaN\<close>. A finite double is represented by the real number it denotes, and
  every arithmetic operation returns the exact result rounded to the nearest double, ties
  to even (\<open>fl\<close>). The doubles around a positive real \<open>r\<close> are the integer multiples of
  its \<open>quantum\<close>, 2 to the power \<open>max \<lfloor>log 2 r\<rfloor> (-1022) - 52\<close>: 53 significant bits for
  normal numbers, multiples of the least subnormal 2 to the -1074 below 2 to the -1022.
  A rounded magnitude of 2 to the 1024 or more overflows to an infinity, and a magnitude
  below half the least subnormal underflows to zero. No operation throws: a division by
  zero yields an infinity or \<open>NaN\<close>, and every comparison with \<open>NaN\<close> is false.

  Two things are left out. The sign of zero: the only zero divisors that occur below are
  twice the square root of a sum of squares, hence \<open>+0\<close>, so the sign of a quotient by
  zero is the sign of the dividend. And the latitude ECMAScript gives to \<^verbatim>\<open>Math.pow\<close> and
  \<^verbatim>\<open>Math.sqrt\<close>: they are taken as the engines compute them, \<^verbatim>\<open>Math.pow(d, 2)\<close> as the
  rounded product of \<open>d\<close> with itself and \<^verbatim>\<open>Math.sqrt\<close> as the rounded square root.
\<close>

datatype jsnum = Num real | PInf | NInf | NaN

fun js_neg :: "jsnum \<Rightarrow> jsnum" where
  "js_neg (Num a) = Num (- a)"
| "js_neg PInf = NInf"
| "js_neg NInf = PInf"
| "js_neg NaN = NaN"

text \<open>The nearest integer, a tie going to the even one.\<close>

definition round_even :: "real \<Rightarrow> int" where
  "round_even t =
     (let f = \<lfloor>t\<rfloor>
      in if t - of_int f < 1 / 2 then f
         else if 1 / 2 < t - of_int f then f + 1
         else if even f then f else f + 1)"

definition quantum :: "real \<Rightarrow> real" where
  "quantum r = 2 powr of_int (max \<lfloor>log 2 r\<rfloor> (- 1022) - 52)"

text \<open>Rounding a positive real, and rounding any real by its magnitude and sign.\<close>

definition fl_mag :: "real \<Rightarrow> jsnum" where
  "fl_mag r =
     (let v = of_int (round_even (r / quantum r)) * quantum r
      in if 2 ^ 1024 \<le> v then PInf else Num v)"

definition fl :: "real \<Rightarrow> jsnum" where
  "fl r = (if r = 0 then Num 0 else if 0 < r then fl_mag r else js_neg (fl_mag (- r)))"

fun js_add :: "jsnum \<Rightarrow> jsnum \<Rightarrow> jsnum" where
  "js_add NaN _ = NaN"
| "js_add _ NaN = NaN"
| "js_add (Num a) (Num b) = fl (a + b)"
| "js_add PInf NInf = NaN"
| "js_add NInf PInf = NaN"
| "js_add PInf _ = PInf"
| "js_add _ PInf = PInf"
| "js_add NInf _ = NInf"
| "js_add _ NInf = NInf"

definition js_sub :: "jsnum \<Rightarrow> jsnum \<Rightarrow> jsnum" where
  "js_sub a b = js_add a (js_neg b)"

fun js_mul :: "jsnum \<Rightarrow> jsnum \<Rightarrow> jsnum" where
  "js_mul NaN _ = NaN"
| "js_mul _ NaN = NaN"
| "js_mul (Num a) (Num b) = fl (a * b)"
| "js_mul (Num a) PInf = (if a = 0 then NaN else if 0 < a then PInf else NInf)"
| "js_mul (Num a) NInf = (if a = 0 then NaN else if 0 < a then NInf else PInf)"
| "js_mul PInf (Num b) = (if b = 0 then NaN else if 0 < b then PInf else NInf)"
| "js_mul NInf (Num b) = (if b = 0 then NaN else if 0 < b then NInf else PInf)"
| "js_mul PInf PInf = PInf"
| "js_mul NInf NInf = PInf"
| "js_mul _ _ = NInf"

fun js_div :: "jsnum \<Rightarrow> jsnum \<Rightarrow> jsnum" where
  "js_div NaN _ = NaN"
| "js_div _ NaN = NaN"
| "js_div (Num a) (Num b) =
     (if b \<noteq> 0 then fl (a / b)
      else if 0 < a then PInf else if a < 0 then NInf else NaN)"
| "js_div (Num a) _ = Num 0"
| "js_div PInf (Num b) = (if b < 0 then NInf else PInf)"
| "js_div NInf (Num b) = (if b < 0 then PInf else NInf)"
| "js_div _ _ = NaN"

text \<open>\<^verbatim>\<open>Math.sqrt\<close> and \<^verbatim>\<open>Math.pow(d, 2)\<close>.\<close>

fun js_sqrt :: "jsnum \<Rightarrow> jsnum" where
  "js_sqrt (Num a) = (if a < 0 then NaN else fl (sqrt a))"
| "js_sqrt PInf = PInf"
| "js_sqrt NInf = NaN"
| "js_sqrt NaN = NaN"

definition js_pow2 :: "jsnum \<Rightarrow> jsnum" where
  "js_pow2 d = js_mul d d"

fun js_lt :: "jsnum \<Rightarrow> jsnum \<Rightarrow> bool" where
  "js_lt NaN _ = False"
| "js_lt _ NaN = False"
| "js_lt (Num a) (Num b) = (a < b)"
| "js_lt NInf NInf = False"
| "js_lt NInf _ = True"
| "js_lt _ NInf = False"
| "js_lt PInf _ = False"
| "js_lt _ PInf = True"

text \<open>\<open>a >= b\<close> of JavaScript: false as soon as one side is \<open>NaN\<close>.\<close>

fun js_ge :: "jsnum \<Rightarrow> jsnum \<Rightarrow> bool" where
  "js_ge NaN _ = False"
| "js_ge _ NaN = False"
| "js_ge a b = (\<not> js_lt a b)"

text \<open>Not negative: a finite double that is at least 0, \<open>+Infinity\<close>, or \<open>NaN\<close>.\<close>

fun not_negative :: "jsnum \<Rightarrow> bool" where
  "not_negative (Num a) = (0 \<le> a)"
| "not_negative PInf = True"
| "not_negative NInf = False"
| "not_negative NaN = True"

subsection \<open>Errors and array reads\<close>

text \<open>
  Reading an array beyond its length gives \<^verbatim>\<open>undefined\<close> (\<open>None\<close>); reading a property
  of \<^verbatim>\<open>undefined\<close> throws a \<^verbatim>\<open>TypeError\<close>, which nothing in the frame callback catches.
\<close>

datatype error = TypeError

definition elem_at :: "'a list \<Rightarrow> nat \<Rightarrow> 'a option" where
  "elem_at xs i = (if i < length xs then Some (xs ! i) else None)"

fun bindE :: "error + 'a \<Rightarrow> ('a \<Rightarrow> error + 'b) \<Rightarrow> error + 'b" where
  "bindE (Inl e) f = Inl e"
| "bindE (Inr v) f = f v"

subsection \<open>Geometry\<close>

text \<open>
  A landmark point has two finite coordinates. What is proved below of all real
  coordinates holds of the doubles among them.
\<close>

record point =
  x :: real
  y :: real

definition distance :: "point \<Rightarrow> point \<Rightarrow> jsnum" where
  "distance p1 p2 =
     js_sqrt (js_add (js_pow2 (js_sub (Num (x p1)) (Num (x p2))))
                     (js_pow2 (js_sub (Num (y p1)) (Num (y p2)))))"

text \<open>\<^verbatim>\<open>eyeLandmarks[i]\<close> handed to \<^verbatim>\<open>distance\<close>, which reads its \<^verbatim>\<open>.x\<close>.\<close>

definition deref :: "point option list \<Rightarrow> nat \<Rightarrow> error + point" where
  "deref eyeLandmarks i =
     (case elem_at eyeLandmarks i of Some (Some p) \<Rightarrow> Inr p | _ \<Rightarrow> Inl TypeError)"

definition calculateEAR :: "point option list \<Rightarrow> error + jsnum" where
  "calculateEAR eyeLandmarks =
     bindE (deref eyeLandmarks 1) (\<lambda>e1. bindE (deref eyeLandmarks 5) (\<lambda>e5.
     bindE (deref eyeLandmarks 2) (\<lambda>e2. bindE (deref eyeLandmarks 4) (\<lambda>e4.
     bindE (deref eyeLandmarks 0) (\<lambda>e0. bindE (deref eyeLandmarks 3) (\<lambda>e3.
       let A = distance e1 e5;
           B = distance e2 e4;
           C = distance e0 e3;
           ear = js_div (js_add A B) (js_mul (Num 2.0) C)
       in Inr ear))))))"

definition getEyeLandmarks :: "point list \<Rightarrow> nat list \<Rightarrow> point option list" where
  "getEyeLandmarks landmarks eyeIndices = map (\<lambda>idx. elem_at landmarks idx) eyeIndices"

subsection \<open>Strings\<close>

text \<open>
  A JavaScript string is a sequence of UTF-16 code units, and \<^verbatim>\<open>length\<close> counts them.
  \<open>ascii\<close> embeds an ASCII literal. \<^verbatim>\<open>String.prototype.trim\<close> removes the white space
  and line terminators of ECMAScript from both ends.
\<close>

type_synonym jsstring = "16 word list"

definition ascii :: "string \<Rightarrow> jsstring" where
  "ascii s = map (\<lambda>c. of_nat (of_char c)) s"

definition is_white_space :: "16 word \<Rightarrow> bool" where
  "is_white_space c \<longleftrightarrow>
     c = 0x09 \<or> c = 0x0A \<or> c = 0x0B \<or> c = 0x0C \<or> c = 0x0D \<or> c = 0x20 \<or> c = 0xA0
     \<or> c = 0x1680 \<or> (0x2000 \<le> c \<and> c \<le> 0x200A) \<or> c = 0x2028 \<or> c = 0x2029
     \<or> c = 0x202F \<or> c = 0x205F \<or> c = 0x3000 \<or> c = 0xFEFF"

definition trim :: "jsstring \<Rightarrow> jsstring" where
  "trim s = rev (dropWhile is_white_space (rev (dropWhile is_white_space s)))"

definition startsWith :: "jsstring \<Rightarrow> jsstring \<Rightarrow> bool" where
  "startsWith s pre = (take (length pre) s = pre)"

subsection \<open>Configuration and module state\<close>

text \<open>
  \<^verbatim>\<open>CONFIG\<close> is a mutable object (the settings handler assigns \<^verbatim>\<open>SMS_RECIPIENT\<close>), so it
  is a field of the state. The literal \<^verbatim>\<open>0.22\<close> denotes the double nearest to 0.22. The
  API key is left out.
\<close>

record config =
  EAR_THRESHOLD :: jsnum
  CONSEC_FRAMES_THRESHOLD :: nat
  HTTPSMS_SENDER :: jsstring
  SMS_RECIPIENT :: jsstring
  SMS_COOLDOWN_MS :: int
  RIGHT_EYE :: "nat list"
  LEFT_EYE :: "nat list"

definition default_config :: config where
  "default_config =
     \<lparr> EAR_THRESHOLD = fl 0.22,
       CONSEC_FRAMES_THRESHOLD = 20,
       HTTPSMS_SENDER = ascii ''+917780643862'',
       SMS_RECIPIENT = ascii ''+917780643862'',
       SMS_COOLDOWN_MS = 60000,
       RIGHT_EYE = [33, 160, 158, 133, 153, 144],
       LEFT_EYE = [362, 385, 387, 263, 373, 380] \<rparr>"

text \<open>
  What the code does to the outside world is recorded in \<open>events\<close>, in order:
  \<open>AlarmStarted\<close> and \<open>AlarmStopped\<close> are the bodies of \<^verbatim>\<open>triggerAlarm\<close> and
  \<^verbatim>\<open>stopAlarm\<close> running, \<open>SmsAttempt now\<close> is the call of \<^verbatim>\<open>fetch\<close> by the invocation of
  \<^verbatim>\<open>sendSmsAlert\<close> that read the clock value \<open>now\<close>, and \<open>SmsSkipped\<close> is its early
  return during the cooldown.
\<close>

datatype event = AlarmStarted | AlarmStopped | SmsAttempt int | SmsSkipped

text \<open>
  The state: the module-level variables, the parts of the page the functions below write,
  and \<^verbatim>\<open>localStorage\<close>. \<open>audioContext\<close> and \<open>alarmOscillator\<close> say whether the variable
  holds an object; \<open>alarmInterval\<close> holds, while the timer is set, the \<^verbatim>\<open>beepOn\<close> variable
  of its callback. The frame-rate counter, the canvas drawing, the camera, the buttons and
  the opening and closing of the settings dialog are left out: they neither read nor write
  the variables modelled here.
\<close>

record state =
  CONFIG :: config
  isRunning :: bool
  closedEyeCounter :: nat
  alarmOn :: bool
  lastSmsTime :: int
  audioContext :: bool
  alarmInterval :: "bool option"
  alarmOscillator :: bool
  alertOverlay :: bool
  statusText :: string
  statusDot :: string
  earWarning :: bool
  localStorage :: "string \<rightharpoonup> jsstring"
  settingsClass :: string
  settingsText :: jsstring
  events :: "event list"

text \<open>
  The module as loaded, with nothing saved in \<^verbatim>\<open>localStorage\<close>: the initial values of
  the variables.
\<close>

definition initial_state :: state where
  "initial_state =
     \<lparr> CONFIG = default_config, isRunning = False, closedEyeCounter = 0, alarmOn = False,
       lastSmsTime = 0, audioContext = False, alarmInterval = None,
       alarmOscillator = False, alertOverlay = False, statusText = [], statusDot = [],
       earWarning = False, localStorage = Map.empty, settingsClass = [],
       settingsText = [], events = [] \<rparr>"

subsection \<open>The audio alarm\<close>

text \<open>
  The browser is taken to provide Web Audio: creating the context and the oscillators
  succeeds.
\<close>

definition initAudioContext :: "state \<Rightarrow> state" where
  "initAudioContext st = (if \<not> audioContext st then st\<lparr>audioContext := True\<rparr> else st)"

definition stopAlarmSound :: "state \<Rightarrow> state" where
  "stopAlarmSound st =
     (let st1 = (if alarmInterval st \<noteq> None then st\<lparr>alarmInterval := None\<rparr> else st)
      in if alarmOscillator st1 then st1\<lparr>alarmOscillator := False\<rparr> else st1)"

definition startAlarmSound :: "state \<Rightarrow> state" where
  "startAlarmSound st =
     (let st1 = (if \<not> audioContext st then initAudioContext st else st)
      in if \<not> audioContext st1 then st1
         else (stopAlarmSound st1)\<lparr>alarmInterval := Some True\<rparr>)"

text \<open>One run of the timer callback set by \<^verbatim>\<open>startAlarmSound\<close> (every 250 ms).\<close>

definition alarmTick :: "state \<Rightarrow> state" where
  "alarmTick st =
     (case alarmInterval st of
        None \<Rightarrow> st
      | Some beepOn \<Rightarrow>
          (if beepOn then st\<lparr>alarmOscillator := True, alarmInterval := Some (\<not> beepOn)\<rparr>
           else st\<lparr>alarmOscillator := False, alarmInterval := Some (\<not> beepOn)\<rparr>))"

subsection \<open>The SMS alert\<close>

text \<open>
  \<^verbatim>\<open>sendSmsAlert\<close> is an async function called without \<^verbatim>\<open>await\<close>: it runs up to the
  call of \<^verbatim>\<open>fetch\<close> inside \<^verbatim>\<open>triggerAlarm\<close> (\<open>sendSmsAlert\<close>, with \<open>now\<close> the value of
  \<^verbatim>\<open>Date.now()\<close>), and its remainder runs when the response arrives
  (\<open>smsResponse\<close>, with \<open>ok\<close> false for a response that is not ok and for a rejected
  request).
\<close>

definition sendSmsAlert :: "int \<Rightarrow> state \<Rightarrow> state" where
  "sendSmsAlert now st =
     (if now - lastSmsTime st < SMS_COOLDOWN_MS (CONFIG st)
      then st\<lparr>events := events st @ [SmsSkipped]\<rparr>
      else st\<lparr>events := events st @ [SmsAttempt now]\<rparr>)"

definition smsResponse :: "int \<Rightarrow> bool \<Rightarrow> state \<Rightarrow> state" where
  "smsResponse now ok st = (if ok then st\<lparr>lastSmsTime := now\<rparr> else st)"

subsection \<open>Alarm on and off\<close>

definition updateStatus :: "string \<Rightarrow> string \<Rightarrow> state \<Rightarrow> state" where
  "updateStatus status type st =
     st\<lparr>statusText := status,
        statusDot := (if type = ''active'' then ''active''
                      else if type = ''alert'' then ''alert'' else [])\<rparr>"

definition triggerAlarm :: "int \<Rightarrow> state \<Rightarrow> state" where
  "triggerAlarm now st =
     (if \<not> alarmOn st then
        (let st1 = st\<lparr>alarmOn := True, alertOverlay := True,
                       events := events st @ [AlarmStarted]\<rparr>;
             st2 = updateStatus ''DROWSINESS DETECTED!'' ''alert'' st1;
             st3 = startAlarmSound st2
         in sendSmsAlert now st3)
      else st)"

definition stopAlarm :: "state \<Rightarrow> state" where
  "stopAlarm st =
     (if alarmOn st then
        (let st1 = st\<lparr>alarmOn := False, alertOverlay := False,
                       events := events st @ [AlarmStopped]\<rparr>;
             st2 = updateStatus ''Monitoring...'' ''active'' st1
         in stopAlarmSound st2)
      else st)"

subsection \<open>The frame callback\<close>

text \<open>
  \<^verbatim>\<open>results.multiFaceLandmarks\<close> is absent (\<open>None\<close>) or a list of faces, each a list of
  landmark points. \<open>now\<close> is the clock value \<^verbatim>\<open>sendSmsAlert\<close> would read. The eye
  contours are drawn after the state has been updated, from the six points per eye that
  \<^verbatim>\<open>calculateEAR\<close> has read already, so drawing raises no further error.
\<close>

record results =
  multiFaceLandmarks :: "point list list option"

definition face_detected :: "results \<Rightarrow> bool" where
  "face_detected res =
     (case multiFaceLandmarks res of None \<Rightarrow> False | Some faces \<Rightarrow> length faces > 0)"

definition avgEAR :: "config \<Rightarrow> point list \<Rightarrow> error + jsnum" where
  "avgEAR cfg landmarks =
     (let rightEyeLandmarks = getEyeLandmarks landmarks (RIGHT_EYE cfg);
          leftEyeLandmarks = getEyeLandmarks landmarks (LEFT_EYE cfg)
      in bindE (calculateEAR rightEyeLandmarks) (\<lambda>rightEAR.
         bindE (calculateEAR leftEyeLandmarks) (\<lambda>leftEAR.
           Inr (js_div (js_add rightEAR leftEAR) (Num 2)))))"

definition onResults :: "int \<Rightarrow> results \<Rightarrow> state \<Rightarrow> error + state" where
  "onResults now res st =
     (if face_detected res then
        (let landmarks = the (multiFaceLandmarks res) ! 0
         in bindE (avgEAR (CONFIG st) landmarks) (\<lambda>avg.
              let st1 = (if js_lt avg (EAR_THRESHOLD (CONFIG st))
                         then st\<lparr>closedEyeCounter := closedEyeCounter st + 1,
                                 earWarning := True\<rparr>
                         else st\<lparr>closedEyeCounter := 0, earWarning := False\<rparr>)
              in Inr (if closedEyeCounter st1 \<ge> CONSEC_FRAMES_THRESHOLD (CONFIG st1)
                      then triggerAlarm now st1
                      else stopAlarm st1)))
      else
        (let st1 = st\<lparr>earWarning := False\<rparr>
         in Inr (if \<not> alarmOn st1 then updateStatus ''No face detected'' ''normal'' st1
                 else st1)))"

text \<open>Frames are processed one after the other; an uncaught error ends the run.\<close>

fun run_frames :: "(int \<times> results) list \<Rightarrow> state \<Rightarrow> error + state" where
  "run_frames [] st = Inr st"
| "run_frames (f # fs) st = bindE (onResults (fst f) (snd f) st) (run_frames fs)"

subsection \<open>Stopping the session\<close>

definition stopDetection :: "state \<Rightarrow> state" where
  "stopDetection st =
     (let st1 = st\<lparr>isRunning := False\<rparr>;
          st2 = stopAlarm st1;
          st3 = st2\<lparr>closedEyeCounter := 0\<rparr>
      in updateStatus ''Ready - Click Start'' ''normal'' st3)"

subsection \<open>Saving the SMS recipient\<close>

text \<open>
  The click handler of the save button, with \<open>input\<close> the value of the text field. The
  two status texts start with the code units U+274C and U+2705.
\<close>

definition saveSettings :: "jsstring \<Rightarrow> state \<Rightarrow> state" where
  "saveSettings input st =
     (let newRecipient = trim input
      in if newRecipient = [] \<or> length newRecipient < 10 then
           st\<lparr>settingsClass := ''settings-status error'',
              settingsText := 0x274C # ascii '' Please enter a valid phone number''\<rparr>
         else
           (let formattedNumber =
                  (if startsWith newRecipient (ascii ''+'') then newRecipient
                   else ascii ''+'' @ newRecipient)
            in st\<lparr>CONFIG := (CONFIG st)\<lparr>SMS_RECIPIENT := formattedNumber\<rparr>,
                  localStorage :=
                    (localStorage st)(''wakeguard_sms_recipient'' \<mapsto> formattedNumber),
                  settingsClass := ''settings-status success'',
                  settingsText :=
                    0x2705 # ascii '' Settings saved! SMS alerts will be sent to: ''
                      @ formattedNumber\<rparr>))"

subsection \<open>Frames, as the state machine sees them\<close>

text \<open>
  The averaged EAR that \<^verbatim>\<open>onResults\<close> computes for a frame with a face, and the two
  kinds of frame the state machine tells apart by the comparison
  \<^verbatim>\<open>avgEAR < CONFIG.EAR_THRESHOLD\<close>.
\<close>

definition frame_ear :: "config \<Rightarrow> results \<Rightarrow> error + jsnum" where
  "frame_ear cfg res = avgEAR cfg (the (multiFaceLandmarks res) ! 0)"

definition low_frame :: "config \<Rightarrow> results \<Rightarrow> bool" where
  "low_frame cfg res \<longleftrightarrow>
     face_detected res \<and>
     (case frame_ear cfg res of
        Inr e \<Rightarrow> js_lt e (EAR_THRESHOLD cfg) | Inl _ \<Rightarrow> False)"

definition high_frame :: "config \<Rightarrow> results \<Rightarrow> bool" where
  "high_frame cfg res \<longleftrightarrow>
     face_detected res \<and>
     (case frame_ear cfg res of
        Inr e \<Rightarrow> js_ge e (EAR_THRESHOLD cfg) | Inl _ \<Rightarrow> False)"

text \<open>The alarm transitions among the recorded events.\<close>

definition alarm_events :: "event list \<Rightarrow> event list" where
  "alarm_events evs = filter (\<lambda>e. e = AlarmStarted \<or> e = AlarmStopped) evs"

subsection \<open>Eye landmarks of a face\<close>

text \<open>
  A face has the landmarks an eye needs when the six indices that \<^verbatim>\<open>calculateEAR\<close>
  reads are within the landmark list. \<open>eye_point\<close> is the landmark \<^verbatim>\<open>eyeLandmarks[i]\<close>
  then, and \<open>eye_width\<close> the horizontal distance \<^verbatim>\<open>C\<close> between points 0 and 3.
\<close>

definition eye_present :: "point list \<Rightarrow> nat list \<Rightarrow> bool" where
  "eye_present landmarks eyeIndices \<longleftrightarrow>
     6 \<le> length eyeIndices \<and> list_all (\<lambda>i. i < length landmarks) (take 6 eyeIndices)"

definition eye_point :: "point list \<Rightarrow> nat list \<Rightarrow> nat \<Rightarrow> point" where
  "eye_point landmarks eyeIndices i = landmarks ! (eyeIndices ! i)"

definition eye_width :: "point list \<Rightarrow> nat list \<Rightarrow> jsnum" where
  "eye_width landmarks eyeIndices =
     distance (eye_point landmarks eyeIndices 0) (eye_point landmarks eyeIndices 3)"

subsection \<open>The EAR formula of the specification\<close>







subsection \<open>Observations\<close>

text \<open>A field of the state a run ends in, if it ends without an error.\<close>

definition observe :: "(state \<Rightarrow> 'a) \<Rightarrow> error + state \<Rightarrow> 'a option" where
  "observe f r = (case r of Inr st \<Rightarrow> Some (f st) | Inl _ \<Rightarrow> None)"

text \<open>
  The beeper is quiet when no timer is set and no oscillator is held. In every state the
  module reaches, it is quiet unless the alarm is on (\<open>audio_inv\<close>).
\<close>

definition audio_quiet :: "state \<Rightarrow> bool" where
  "audio_quiet st \<longleftrightarrow> alarmInterval st = None \<and> \<not> alarmOscillator st"

definition audio_inv :: "state \<Rightarrow> bool" where
  "audio_inv st \<longleftrightarrow> alarmOn st \<or> audio_quiet st"

text \<open>The recipient with a plus sign (code unit 0x2B) in front unless it has one.\<close>

definition normalize_recipient :: "jsstring \<Rightarrow> jsstring" where
  "normalize_recipient s = (if s \<noteq> [] \<and> hd s = 0x2B then s else 0x2B # s)"

subsection \<open>Sample frames\<close>

text \<open>
  Faces of 478 landmarks. In \<open>closed_face\<close> both eyes have width 1 and height 0 (EAR 0);
  in \<open>open_face\<close> one vertical pair of each eye is 1 apart (EAR 1/2); in
  \<open>collapsed_face\<close> all landmarks coincide, so both eyes have width 0.
\<close>

definition collapsed_face :: "point list" where
  "collapsed_face = replicate 478 \<lparr>x = 0, y = 0\<rparr>"

definition closed_face :: "point list" where
  "closed_face = collapsed_face[133 := \<lparr>x = 1, y = 0\<rparr>, 263 := \<lparr>x = 1, y = 0\<rparr>]"

definition open_face :: "point list" where
  "open_face = closed_face[160 := \<lparr>x = 0, y = 1\<rparr>, 385 := \<lparr>x = 0, y = 1\<rparr>]"

definition frame_of :: "point list \<Rightarrow> results" where
  "frame_of face = \<lparr>multiFaceLandmarks = Some [face]\<rparr>"

definition no_face :: results where
  "no_face = \<lparr>multiFaceLandmarks = None\<rparr>"

subsection \<open>Sample states\<close>

text \<open>
  \<open>alarmed_state\<close> is the state after twenty frames of \<open>closed_face\<close>, the last one at
  clock time 100000, from the initial state (lemma \<open>reach_alarmed_state\<close> below): the
  alarm is on and the request for its SMS is under way. In \<open>sms_sent_state\<close> that request
  has been answered ok and the beeper has started its first tone.
\<close>

definition alarmed_state :: state where
  "alarmed_state =
     triggerAlarm 100000 (initial_state\<lparr>closedEyeCounter := 20, earWarning := True\<rparr>)"

definition sms_sent_state :: state where
  "sms_sent_state = alarmTick (smsResponse 100000 True alarmed_state)"

section \<open>Rounding to a double\<close>

lemma round_even_floor: "\<lfloor>t\<rfloor> \<le> round_even t"
  by (simp add: round_even_def Let_def)

lemma round_even_ge:
  assumes "of_int n \<le> t"
  shows "n \<le> round_even t"
proof -
  have "n \<le> \<lfloor>t\<rfloor>" using assms by (simp add: le_floor_iff)
  with round_even_floor[of t] show ?thesis by linarith
qed

lemma round_even_le:
  assumes "t \<le> of_int n"
  shows "round_even t \<le> n"
proof (cases "t - of_int \<lfloor>t\<rfloor> < 1 / 2")
  case True
  have "of_int \<lfloor>t\<rfloor> \<le> (of_int n :: real)" using assms of_int_floor_le[of t] by linarith
  then have "\<lfloor>t\<rfloor> \<le> n" by simp
  with True show ?thesis by (simp add: round_even_def Let_def)
next
  case False
  then have "of_int \<lfloor>t\<rfloor> < t" by linarith
  with assms have "of_int \<lfloor>t\<rfloor> < (of_int n :: real)" by linarith
  then have "\<lfloor>t\<rfloor> < n" by simp
  then show ?thesis by (auto simp: round_even_def Let_def)
qed

lemma round_even_of_int [simp]: "round_even (of_int n) = n"
  by (simp add: round_even_def)


lemma floor_log2_bounds:
  assumes "0 < r"
  shows "2 powr of_int \<lfloor>log 2 r\<rfloor> \<le> r" and "r < 2 powr of_int (\<lfloor>log 2 r\<rfloor> + 1)"
  using floor_log_eq_powr_iff[of r 2 "\<lfloor>log 2 r\<rfloor>"] assms by simp_all

lemma floor_log2_le:
  assumes "0 < r" and "r \<le> 2 powr of_int k"
  shows "\<lfloor>log 2 r\<rfloor> \<le> k"
proof -
  have "(2::real) powr of_int \<lfloor>log 2 r\<rfloor> \<le> 2 powr of_int k"
    using floor_log2_bounds(1)[OF assms(1)] assms(2) by linarith
  then show ?thesis by simp
qed

lemma floor_log2_ge:
  assumes "2 powr of_int k \<le> r"
  shows "k \<le> \<lfloor>log 2 r\<rfloor>"
proof -
  have "(0::real) < 2 powr of_int k" by simp
  with assms have r: "0 < r" by linarith
  have "(2::real) powr of_int k < 2 powr of_int (\<lfloor>log 2 r\<rfloor> + 1)"
    using floor_log2_bounds(2)[OF r] assms by linarith
  then have "k < \<lfloor>log 2 r\<rfloor> + 1" by simp
  then show ?thesis by simp
qed

lemma powr_int_diff_nat:
  assumes "j \<le> k"
  shows "(2::real) powr of_int k / 2 powr of_int j = of_int (2 ^ nat (k - j))"
proof -
  have "(2::real) powr of_int k / 2 powr of_int j = 2 powr (of_int k - of_int j)"
    by (simp add: powr_diff)
  also have "of_int k - of_int j = real (nat (k - j))" using assms by simp
  also have "(2::real) powr real (nat (k - j)) = 2 ^ nat (k - j)"
    by (simp add: powr_realpow)
  finally show ?thesis by simp
qed

lemmas fl_mag_quantum = fl_mag_def

lemma quantum_pos: "0 < quantum r"
  by (simp add: quantum_def)

lemma pow2_div_quantum:
  assumes "0 < r" and "r \<le> 2 powr of_int k" and "- 1074 \<le> k"
  shows "\<exists>n. 2 powr of_int k = of_int n * quantum r"
proof -
  let ?j = "max \<lfloor>log 2 r\<rfloor> (- 1022) - 52"
  have "\<lfloor>log 2 r\<rfloor> \<le> k" using assms(1,2) by (rule floor_log2_le)
  with assms(3) have jk: "?j \<le> k" by linarith
  have "(2::real) powr of_int k / quantum r = of_int (2 ^ nat (k - ?j))"
    unfolding quantum_def by (rule powr_int_diff_nat[OF jk])
  then have "2 powr of_int k = of_int (2 ^ nat (k - ?j)) * quantum r"
    using quantum_pos[of r] by (simp add: field_simps)
  then show ?thesis by blast
qed

text \<open>A number that is at most a power of two rounds to at most that power.\<close>

lemma fl_mag_le_pow2:
  assumes "0 < r" and "r \<le> 2 powr of_int k" and "- 1074 \<le> k" and "k \<le> 1023"
  shows "\<exists>v. fl_mag r = Num v \<and> 0 \<le> v \<and> v \<le> 2 powr of_int k"
proof -
  from pow2_div_quantum[OF assms(1-3)] obtain n where
    n: "2 powr of_int k = of_int n * quantum r" by blast
  let ?q = "quantum r"
  let ?m = "round_even (r / ?q)"
  have q: "0 < ?q" by (rule quantum_pos)
  have "r / ?q \<le> of_int n" using assms(2) n q by (simp add: field_simps)
  then have mn: "?m \<le> n" by (rule round_even_le)
  have "of_int 0 \<le> r / ?q" using assms(1) q by simp
  then have m0: "0 \<le> ?m" by (rule round_even_ge)
  have ub: "of_int ?m * ?q \<le> 2 powr of_int k"
    unfolding n using mn q by (simp add: mult_right_mono)
  have "(2::real) powr of_int k \<le> 2 powr real (1023::nat)"
    by (rule powr_mono) (use assms(4) in simp_all)
  also have "\<dots> = 2 ^ 1023" by (rule powr_realpow) simp
  also have "\<dots> < (2::real) ^ 1024" by simp
  finally have "of_int ?m * ?q < 2 ^ 1024" using ub by linarith
  moreover have "0 \<le> of_int ?m * ?q" using m0 q by simp
  ultimately show ?thesis using ub by (simp add: fl_mag_quantum Let_def)
qed

lemma pow2_ge_powr:
  assumes "1024 \<le> k"
  shows "(2::real) ^ 1024 \<le> 2 powr of_int k"
proof -
  have "(2::real) ^ 1024 = 2 powr real (1024::nat)" by (rule powr_realpow[symmetric]) simp
  also have "\<dots> \<le> 2 powr of_int k" by (rule powr_mono) (use assms in simp_all)
  finally show ?thesis .
qed

text \<open>
  A number that is at least a power of two rounds to at least that power, or overflows.
\<close>

lemma fl_mag_ge_pow2:
  assumes "2 powr of_int k \<le> r" and "- 1074 \<le> k"
  shows "fl_mag r = PInf \<or> (\<exists>v. fl_mag r = Num v \<and> 2 powr of_int k \<le> v)"
proof -
  let ?e = "\<lfloor>log 2 r\<rfloor>"
  let ?j = "max ?e (- 1022) - 52"
  let ?q = "quantum r"
  let ?m = "round_even (r / ?q)"
  have q: "0 < ?q" by (rule quantum_pos)
  have qd: "?q = 2 powr of_int ?j" by (simp add: quantum_def)
  have "(0::real) < 2 powr of_int k" by simp
  with assms(1) have r: "0 < r" by linarith
  have ek: "k \<le> ?e" using assms(1) by (rule floor_log2_ge)
  have "2 powr of_int k \<le> of_int ?m * ?q"
  proof (cases "?j \<le> k")
    case True
    have "(2::real) powr of_int k / ?q = of_int (2 ^ nat (k - ?j))"
      unfolding qd by (rule powr_int_diff_nat[OF True])
    then have kq: "2 powr of_int k = of_int (2 ^ nat (k - ?j)) * ?q"
      using q by (simp add: field_simps)
    have "of_int (2 ^ nat (k - ?j)) \<le> r / ?q"
      using assms(1) q unfolding kq[symmetric]
      by (metis kq divide_right_mono less_imp_le nonzero_mult_div_cancel_right less_irrefl)
    then have "2 ^ nat (k - ?j) \<le> ?m" by (rule round_even_ge)
    then have "(of_int (2 ^ nat (k - ?j)) :: real) \<le> of_int ?m" by linarith
    then show ?thesis unfolding kq using q by (simp add: mult_right_mono)
  next
    case False
    with assms(2) have e: "- 1022 \<le> ?e" by linarith
    then have j: "?j = ?e - 52" by simp
    have je: "?j \<le> ?e" using j by simp
    have "(2::real) powr of_int ?e / ?q = of_int (2 ^ nat (?e - ?j))"
      unfolding qd by (rule powr_int_diff_nat[OF je])
    then have eq: "2 powr of_int ?e = of_int (2 ^ nat (?e - ?j)) * ?q"
      using q by (simp add: field_simps)
    have "2 powr of_int ?e \<le> r" by (rule floor_log2_bounds(1)[OF r])
    then have "of_int (2 ^ nat (?e - ?j)) * ?q \<le> r" unfolding eq .
    then have "of_int (2 ^ nat (?e - ?j)) \<le> r / ?q"
      using q by (simp add: field_simps)
    then have "2 ^ nat (?e - ?j) \<le> ?m" by (rule round_even_ge)
    then have "(of_int (2 ^ nat (?e - ?j)) :: real) \<le> of_int ?m" by linarith
    then have "2 powr of_int ?e \<le> of_int ?m * ?q"
      unfolding eq using q by (simp add: mult_right_mono)
    moreover have "(2::real) powr of_int k \<le> 2 powr of_int ?e"
      using ek by simp
    ultimately show ?thesis by linarith
  qed
  then show ?thesis by (simp add: fl_mag_quantum Let_def)
qed

lemma fl_mag_pow2:
  assumes "- 1074 \<le> k" and "k \<le> 1023"
  shows "fl_mag (2 powr of_int k) = Num (2 powr of_int k)"
proof -
  have p: "(0::real) < 2 powr of_int k" by simp
  from fl_mag_le_pow2[OF p order_refl assms] obtain v where
    v: "fl_mag (2 powr of_int k) = Num v" "v \<le> 2 powr of_int k" by blast
  from fl_mag_ge_pow2[OF order_refl assms(1)] v(1) have "2 powr of_int k \<le> v" by simp
  with v show ?thesis by simp
qed

lemma fl_mag_nonneg:
  assumes "0 < r"
  shows "fl_mag r = PInf \<or> (\<exists>v. fl_mag r = Num v \<and> 0 \<le> v)"
proof -
  have "of_int 0 \<le> r / quantum r" using assms quantum_pos[of r] by simp
  then have "0 \<le> round_even (r / quantum r)" by (rule round_even_ge)
  then have "0 \<le> of_int (round_even (r / quantum r)) * quantum r"
    using quantum_pos[of r] by simp
  then show ?thesis by (simp add: fl_mag_quantum Let_def)
qed



lemma fl_zero [simp]: "fl 0 = Num 0"
  by (simp add: fl_def)

lemma fl_minus: "fl (- r) = js_neg (fl r)"
proof -
  have "js_neg (js_neg v) = v" for v by (cases v) simp_all
  then show ?thesis by (simp add: fl_def)
qed

lemma fl_pow2:
  assumes "- 1074 \<le> k" and "k \<le> 1023"
  shows "fl (2 powr of_int k) = Num (2 powr of_int k)"
  using fl_mag_pow2[OF assms] by (simp add: fl_def)

lemma fl_pow2_nat:
  assumes "n \<le> 1023"
  shows "fl (2 ^ n) = Num (2 ^ n)"
proof -
  have "(2::real) powr of_int (int n) = 2 ^ n" by (simp add: powr_realpow)
  with fl_pow2[of "int n"] assms show ?thesis by simp
qed

lemma fl_inverse_pow2_nat:
  assumes "n \<le> 1074"
  shows "fl (1 / 2 ^ n) = Num (1 / 2 ^ n)"
proof -
  have "(2::real) powr of_int (- int n) = 1 / 2 ^ n"
    by (simp add: powr_minus_divide powr_realpow)
  with fl_pow2[of "- int n"] assms show ?thesis by simp
qed


lemma fl_one [simp]: "fl 1 = Num 1"
  using fl_pow2_nat[of 0] by simp

lemma fl_two [simp]: "fl 2 = Num 2"
  using fl_pow2_nat[of 1] by simp

lemma fl_half [simp]: "fl (1 / 2) = Num (1 / 2)"
  using fl_inverse_pow2_nat[of 1] by simp

lemma fl_minus_one [simp]: "fl (- 1) = Num (- 1)"
  by (simp add: fl_minus)

lemma fl_not_negative:
  assumes "0 \<le> r"
  shows "not_negative (fl r)"
proof (cases "r = 0")
  case True
  then show ?thesis by simp
next
  case False
  with assms have "0 < r" by simp
  from fl_mag_nonneg[OF this] \<open>0 < r\<close> show ?thesis by (auto simp: fl_def)
qed





text \<open>The double that the literal \<^verbatim>\<open>0.22\<close> denotes.\<close>

lemma threshold_double: "fl 0.22 = Num (7926335344172073 / 2 ^ 55)"
proof -
  have e: "\<lfloor>log 2 (0.22::real)\<rfloor> = - 3"
    by (subst floor_log_eq_powr_iff) (simp_all add: powr_minus_divide)
  have q: "quantum 0.22 = 1 / 2 ^ 55"
    unfolding quantum_def e by (simp add: powr_minus_divide)
  have f: "\<lfloor>(0.22::real) / (1 / 2 ^ 55)\<rfloor> = 7926335344172072"
    by (intro floor_unique) simp_all
  have r: "round_even (0.22 / (1 / 2 ^ 55)) = 7926335344172073"
    unfolding round_even_def Let_def f by simp
  show ?thesis
    unfolding fl_def fl_mag_def Let_def q r by simp
qed

subsection \<open>Computing a rounded value\<close>

lemma fl_normal:
  assumes "2 powr of_int e \<le> r" and "r < 2 powr of_int (e + 1)"
    and "- 1022 \<le> e" and "e < 1023"
  shows "fl r = Num (of_int (round_even (r / 2 powr of_int (e - 52))) * 2 powr of_int (e - 52))"
proof -
  have "(0::real) < 2 powr of_int e" by simp
  with assms(1) have r: "0 < r" by linarith
  have e: "\<lfloor>log 2 r\<rfloor> = e"
    using assms(1,2) r by (subst floor_log_eq_powr_iff) simp_all
  have q: "quantum r = 2 powr of_int (e - 52)"
    using assms(3) by (simp add: quantum_def e max_def)
  have "r \<le> 2 powr of_int (e + 1)" using assms(2) by simp
  from fl_mag_le_pow2[OF r this] assms(3,4) obtain v where v: "fl_mag r = Num v" by auto
  then have "v = of_int (round_even (r / quantum r)) * quantum r"
    by (simp add: fl_mag_def Let_def split: if_splits)
  with v r show ?thesis by (simp add: fl_def q)
qed

lemma round_even_near:
  assumes "\<bar>t - of_int m\<bar> < 1 / 2"
  shows "round_even t = m"
proof -
  have "\<lfloor>t\<rfloor> = m \<or> \<lfloor>t\<rfloor> = m - 1"
  proof (cases "of_int m \<le> t")
    case True
    then have "\<lfloor>t\<rfloor> = m" using assms by (intro floor_unique) linarith+
    then show ?thesis by simp
  next
    case False
    then have "of_int (m - 1) \<le> t" and "t < of_int (m - 1) + 1"
      using assms by (simp_all add: abs_if split: if_splits)
    then have "\<lfloor>t\<rfloor> = m - 1" by (rule floor_unique)
    then show ?thesis by simp
  qed
  then show ?thesis
  proof
    assume f: "\<lfloor>t\<rfloor> = m"
    then have "of_int m \<le> t" using of_int_floor_le[of t] by simp
    with assms have "t - of_int m < 1 / 2" by linarith
    with f show ?thesis by (simp add: round_even_def)
  next
    assume f: "\<lfloor>t\<rfloor> = m - 1"
    have "t < of_int m" using f floor_correct[of t] by simp
    with assms have "1 / 2 < t - of_int (m - 1)" by simp
    moreover then have "\<not> t - of_int (m - 1) < 1 / 2" by linarith
    ultimately show ?thesis using f by (simp add: round_even_def)
  qed
qed

lemma fl_near:
  assumes "2 powr of_int e \<le> r" and "r < 2 powr of_int (e + 1)"
    and "- 1022 \<le> e" and "e < 1023"
    and "\<bar>r - of_int m * 2 powr of_int (e - 52)\<bar> < 2 powr of_int (e - 52) / 2"
  shows "fl r = Num (of_int m * 2 powr of_int (e - 52))"
proof -
  let ?q = "2 powr of_int (e - 52) :: real"
  have q: "0 < ?q" by simp
  have "\<bar>r / ?q - of_int m\<bar> = \<bar>r - of_int m * ?q\<bar> / ?q"
    using q by (simp add: field_simps abs_if)
  also have "\<dots> < (?q / 2) / ?q" using assms(5) q by (simp add: divide_strict_right_mono)
  also have "\<dots> = 1 / 2" using q by simp
  finally have "round_even (r / ?q) = m" by (rule round_even_near)
  with fl_normal[OF assms(1-4)] show ?thesis by simp
qed

lemma round_even_frac:
  assumes "of_int f \<le> t" and "t < of_int f + 1"
  shows "round_even t = (if t - of_int f < 1 / 2 then f else if 1 / 2 < t - of_int f then f + 1
       else if even f then f else f + 1)"
proof -
  have "\<lfloor>t\<rfloor> = f" using assms by (rule floor_unique)
  then show ?thesis by (simp add: round_even_def)
qed

lemma fl_tie:
  assumes "2 powr of_int e \<le> r" and "r < 2 powr of_int (e + 1)"
    and "- 1022 \<le> e" and "e < 1023"
    and "r = (of_int f + 1 / 2) * 2 powr of_int (e - 52)"
  shows "fl r = Num (of_int (if even f then f else f + 1) * 2 powr of_int (e - 52))"
proof -
  let ?q = "2 powr of_int (e - 52) :: real"
  have t: "r / ?q = of_int f + 1 / 2" using assms(5) by simp
  have "round_even (r / ?q) = (if even f then f else f + 1)"
    unfolding t by (subst round_even_frac[of f]) simp_all
  with fl_normal[OF assms(1-4)] show ?thesis by simp
qed

section \<open>Double arithmetic\<close>

lemma threshold_double': "fl (11 / 50) = Num (7926335344172073 / 2 ^ 55)"
  using threshold_double by simp

lemma not_negative_add:
  "not_negative a \<Longrightarrow> not_negative b \<Longrightarrow> not_negative (js_add a b)"
  by (cases a; cases b) (simp_all add: fl_not_negative)

lemma not_negative_pow2: "not_negative (js_pow2 d)"
  by (cases d) (simp_all add: js_pow2_def fl_not_negative)

lemma not_negative_sqrt: "not_negative (js_sqrt v)"
  by (cases v) (simp_all add: fl_not_negative)

lemma not_negative_twice: "not_negative c \<Longrightarrow> not_negative (js_mul (Num 2) c)"
  by (cases c) (simp_all add: fl_not_negative)

lemma not_negative_div:
  "not_negative a \<Longrightarrow> not_negative b \<Longrightarrow> not_negative (js_div a b)"
  by (cases a; cases b) (auto simp: fl_not_negative)

lemma distance_not_negative: "not_negative (distance p q)"
  by (simp add: distance_def not_negative_sqrt)

lemma distance_same: "distance p p = Num 0"
  by (simp add: distance_def js_sub_def js_pow2_def)

lemma div_by_zero_width:
  assumes "not_negative h"
  shows "js_div h (js_mul (Num 2) (Num 0)) = PInf \<or> js_div h (js_mul (Num 2) (Num 0)) = NaN"
  using assms by (cases h) (auto simp: not_less)

lemma avg_not_low:
  assumes "r = PInf \<or> r = NaN" and "not_negative l"
  shows "\<not> js_lt (js_div (js_add r l) (Num 2)) t"
    and "\<not> js_lt (js_div (js_add l r) (Num 2)) t"
  using assms by (cases l; cases t; auto)+

lemmas sample_arith = distance_def js_sub_def js_pow2_def threshold_double threshold_double'

lemma default_threshold:
  "EAR_THRESHOLD default_config = Num (7926335344172073 / 2 ^ 55)"
  by (simp add: default_config_def threshold_double')

subsection \<open>Rounding at work\<close>

text \<open>
  The doubles nearest to 0.10144, 0.17752 and 0.634, taken as the two heights and the
  width of an eye: the exact quotient (0.10144 + 0.17752) / (2 * 0.634) is 0.22, but the
  sum is a tie that rounds to even and the quotient rounds down, to
  0.21999999999999997, which is below the double that \<^verbatim>\<open>0.22\<close> denotes.
\<close>

lemma rounded_quotient:
  "js_div (js_add (fl 0.10144) (fl 0.17752)) (js_mul (Num 2) (fl 0.634))
     = Num (7926335344172072 / 2 ^ 55)"
proof -
  have a: "fl 0.10144 = Num (7309522339207410 / 2 ^ 56)"
    using fl_near[of "- 4" "0.10144" 7309522339207410] by (simp add: powr_minus_divide)
  have b: "fl 0.17752 = Num (6395832046806484 / 2 ^ 55)"
    using fl_near[of "- 3" "0.17752" 6395832046806484] by (simp add: powr_minus_divide)
  have c: "fl 0.634 = Num (5710564327505789 / 2 ^ 53)"
    using fl_near[of "- 1" "0.634" 5710564327505789] by (simp add: powr_minus_divide)
  have ab: "js_add (Num (7309522339207410 / 2 ^ 56)) (Num (6395832046806484 / 2 ^ 55))
      = Num (5025296608205094 / 2 ^ 54)"
    using fl_tie[of "- 2" "7309522339207410 / 2 ^ 56 + 6395832046806484 / 2 ^ 55"
        5025296608205094]
    by (simp add: powr_minus_divide)
  have c2: "js_mul (Num 2) (Num (5710564327505789 / 2 ^ 53))
      = Num (5710564327505789 / 2 ^ 52)"
    using fl_near[of "0" "2 * (5710564327505789 / 2 ^ 53)" 5710564327505789]
    by (simp add: powr_minus_divide)
  have q: "js_div (Num (5025296608205094 / 2 ^ 54)) (Num (5710564327505789 / 2 ^ 52))
      = Num (7926335344172072 / 2 ^ 55)"
    using fl_near[of "- 3" "(5025296608205094 / 2 ^ 54) / (5710564327505789 / 2 ^ 52)"
        7926335344172072]
    by (simp add: powr_minus_divide)
  show ?thesis unfolding a b c ab c2 q ..
qed

lemma rounded_quotient_is_low:
  "js_lt (js_div (js_add (fl 0.10144) (fl 0.17752)) (js_mul (Num 2) (fl 0.634))) (fl 0.22)"
  "(0.10144 + 0.17752) / (2 * 0.634) = (0.22 :: real)"
  unfolding rounded_quotient threshold_double by simp_all

text \<open>Bounds for normalised points.\<close>

lemma powr_int_simps:
  "(2::real) powr of_int 0 = 1" "(2::real) powr of_int 1 = 2" "(2::real) powr of_int 2 = 4"
  by simp_all















section \<open>Basic facts\<close>

lemma js_ge_not_lt: "js_ge a b \<Longrightarrow> \<not> js_lt a b"
  by (cases a; cases b) simp_all

lemma alarm_events_simps [simp]:
  "alarm_events [] = []"
  "alarm_events (evs @ evs') = alarm_events evs @ alarm_events evs'"
  "alarm_events (AlarmStarted # evs) = AlarmStarted # alarm_events evs"
  "alarm_events (AlarmStopped # evs) = AlarmStopped # alarm_events evs"
  "alarm_events (SmsAttempt t # evs) = alarm_events evs"
  "alarm_events (SmsSkipped # evs) = alarm_events evs"
  by (simp_all add: alarm_events_def)

lemmas alarm_defs = triggerAlarm_def stopAlarm_def updateStatus_def startAlarmSound_def
  stopAlarmSound_def initAudioContext_def sendSmsAlert_def Let_def

lemmas ear_defs = frame_ear_def avgEAR_def getEyeLandmarks_def elem_at_def calculateEAR_def
  deref_def sample_arith

lemmas sample_defs = frame_of_def no_face_def open_face_def closed_face_def
  collapsed_face_def face_detected_def default_config_def initial_state_def

lemma triggerAlarm_fields:
  "CONFIG (triggerAlarm now st) = CONFIG st"
  "closedEyeCounter (triggerAlarm now st) = closedEyeCounter st"
  "alarmOn (triggerAlarm now st)"
  "lastSmsTime (triggerAlarm now st) = lastSmsTime st"
  "alarm_events (events (triggerAlarm now st)) =
     alarm_events (events st) @ (if alarmOn st then [] else [AlarmStarted])"
  by (simp_all add: alarm_defs)

lemma stopAlarm_fields:
  "CONFIG (stopAlarm st) = CONFIG st"
  "closedEyeCounter (stopAlarm st) = closedEyeCounter st"
  "\<not> alarmOn (stopAlarm st)"
  "lastSmsTime (stopAlarm st) = lastSmsTime st"
  "events (stopAlarm st) = events st @ (if alarmOn st then [AlarmStopped] else [])"
  by (simp_all add: alarm_defs)

lemma triggerAlarm_events:
  "events (triggerAlarm now st) = events st @
     (if alarmOn st then []
      else [AlarmStarted, if now - lastSmsTime st < SMS_COOLDOWN_MS (CONFIG st)
                          then SmsSkipped else SmsAttempt now])"
  by (simp add: alarm_defs)

lemma smsResponse_fields:
  "CONFIG (smsResponse now ok st) = CONFIG st"
  "alarmOn (smsResponse now ok st) = alarmOn st"
  "events (smsResponse now ok st) = events st"
  "lastSmsTime (smsResponse now ok st) = (if ok then now else lastSmsTime st)"
  by (simp_all add: smsResponse_def)

lemmas notifier_fields = triggerAlarm_events triggerAlarm_fields(1-4) stopAlarm_fields
  smsResponse_fields

lemma run_frames_append:
  "run_frames (fs @ gs) st = bindE (run_frames fs st) (run_frames gs)"
proof (induction fs arbitrary: st)
  case Nil
  show ?case by simp
next
  case (Cons f fs)
  show ?case
    by (cases "onResults (fst f) (snd f) st") (simp_all add: Cons.IH)
qed

lemma audio_inv_initial: "audio_inv initial_state"
  by (simp add: audio_inv_def audio_quiet_def initial_state_def)

lemma audio_inv_triggerAlarm: "audio_inv st \<Longrightarrow> audio_inv (triggerAlarm now st)"
  by (simp add: audio_inv_def triggerAlarm_fields)

lemma alarmed_state_fields:
  "CONFIG alarmed_state = default_config"
  "alarmOn alarmed_state"
  "lastSmsTime alarmed_state = 0"
  "events alarmed_state = [AlarmStarted, SmsAttempt 100000]"
  "audio_inv alarmed_state"
  by (simp_all add: alarmed_state_def notifier_fields audio_inv_def initial_state_def
      default_config_def)

lemma sms_sent_state_fields:
  "CONFIG sms_sent_state = default_config"
  "alarmOn sms_sent_state"
  "lastSmsTime sms_sent_state = 100000"
  "events sms_sent_state = [AlarmStarted, SmsAttempt 100000]"
  by (simp_all add: sms_sent_state_def alarmTick_def smsResponse_fields alarmed_state_fields
      split: option.splits)

lemma sms_sent_state_beeps: "alarmOscillator sms_sent_state"
  by (simp add: sms_sent_state_def alarmTick_def smsResponse_def alarmed_state_def alarm_defs
      initial_state_def default_config_def)

subsection \<open>One frame with a face\<close>

lemma onResults_face:
  assumes "face_detected res" and "frame_ear (CONFIG st) res = Inr e"
  shows "onResults now res st =
     Inr (let st1 = (if js_lt e (EAR_THRESHOLD (CONFIG st))
                     then st\<lparr>closedEyeCounter := closedEyeCounter st + 1, earWarning := True\<rparr>
                     else st\<lparr>closedEyeCounter := 0, earWarning := False\<rparr>)
          in if closedEyeCounter st1 \<ge> CONSEC_FRAMES_THRESHOLD (CONFIG st1)
             then triggerAlarm now st1 else stopAlarm st1)"
  using assms by (simp add: onResults_def frame_ear_def Let_def)

lemma onResults_low:
  assumes "low_frame (CONFIG st) res"
  shows "\<exists>st'. onResults now res st = Inr st' \<and> CONFIG st' = CONFIG st
     \<and> closedEyeCounter st' = closedEyeCounter st + 1
     \<and> (alarmOn st' \<longleftrightarrow> CONSEC_FRAMES_THRESHOLD (CONFIG st) \<le> closedEyeCounter st + 1)
     \<and> alarm_events (events st') = alarm_events (events st) @
          (if CONSEC_FRAMES_THRESHOLD (CONFIG st) \<le> closedEyeCounter st + 1
           then (if alarmOn st then [] else [AlarmStarted])
           else (if alarmOn st then [AlarmStopped] else []))"
proof -
  from assms obtain e where fd: "face_detected res"
    and fe: "frame_ear (CONFIG st) res = Inr e"
    and lt: "js_lt e (EAR_THRESHOLD (CONFIG st))"
    by (auto simp: low_frame_def split: sum.splits)
  show ?thesis
    by (simp add: onResults_face[OF fd fe] lt Let_def triggerAlarm_fields stopAlarm_fields)
qed

subsection \<open>A run of low frames\<close>

lemma run_low_frames:
  assumes "\<forall>f \<in> set fs. low_frame (CONFIG st) (snd f)"
    and "alarmOn st \<longleftrightarrow> CONSEC_FRAMES_THRESHOLD (CONFIG st) \<le> closedEyeCounter st"
  shows "\<exists>st'. run_frames fs st = Inr st' \<and> CONFIG st' = CONFIG st
     \<and> closedEyeCounter st' = closedEyeCounter st + length fs
     \<and> (alarmOn st' \<longleftrightarrow>
          CONSEC_FRAMES_THRESHOLD (CONFIG st) \<le> closedEyeCounter st + length fs)
     \<and> alarm_events (events st') = alarm_events (events st) @
          (if \<not> alarmOn st
              \<and> CONSEC_FRAMES_THRESHOLD (CONFIG st) \<le> closedEyeCounter st + length fs
           then [AlarmStarted] else [])"
  using assms
proof (induction fs arbitrary: st)
  case Nil
  then show ?case by simp
next
  case (Cons f fs)
  from Cons.prems(1) have "low_frame (CONFIG st) (snd f)" by simp
  from onResults_low[OF this, of "fst f"] obtain s1 where
    s1: "onResults (fst f) (snd f) st = Inr s1" "CONFIG s1 = CONFIG st"
      "closedEyeCounter s1 = closedEyeCounter st + 1"
      "alarmOn s1 \<longleftrightarrow> CONSEC_FRAMES_THRESHOLD (CONFIG st) \<le> closedEyeCounter st + 1"
      "alarm_events (events s1) = alarm_events (events st) @
          (if CONSEC_FRAMES_THRESHOLD (CONFIG st) \<le> closedEyeCounter st + 1
           then (if alarmOn st then [] else [AlarmStarted])
           else (if alarmOn st then [AlarmStopped] else []))"
    by blast
  have p1: "\<forall>f \<in> set fs. low_frame (CONFIG s1) (snd f)"
    using Cons.prems(1) s1(2) by simp
  have p2: "alarmOn s1 \<longleftrightarrow> CONSEC_FRAMES_THRESHOLD (CONFIG s1) \<le> closedEyeCounter s1"
    using s1 by simp
  from Cons.IH[OF p1 p2] obtain s2 where
    s2: "run_frames fs s1 = Inr s2" "CONFIG s2 = CONFIG s1"
      "closedEyeCounter s2 = closedEyeCounter s1 + length fs"
      "alarmOn s2 \<longleftrightarrow>
         CONSEC_FRAMES_THRESHOLD (CONFIG s1) \<le> closedEyeCounter s1 + length fs"
      "alarm_events (events s2) = alarm_events (events s1) @
          (if \<not> alarmOn s1
              \<and> CONSEC_FRAMES_THRESHOLD (CONFIG s1) \<le> closedEyeCounter s1 + length fs
           then [AlarmStarted] else [])"
    by blast
  have "run_frames (f # fs) st = Inr s2" using s1(1) s2(1) by simp
  moreover have "alarm_events (events s2) = alarm_events (events st) @
          (if \<not> alarmOn st
              \<and> CONSEC_FRAMES_THRESHOLD (CONFIG st) \<le> closedEyeCounter st + length (f # fs)
           then [AlarmStarted] else [])"
    using s1 s2 Cons.prems(2) by auto
  ultimately show ?case using s1 s2 by auto
qed

lemma low_closed_frame: "low_frame default_config (frame_of closed_face)"
  by (simp add: low_frame_def ear_defs sample_defs)

lemma high_open_frame: "high_frame default_config (frame_of open_face)"
  by (simp add: high_frame_def ear_defs sample_defs)

subsection \<open>The sample frames, step by step\<close>

lemma closed_frame_ear: "frame_ear default_config (frame_of closed_face) = Inr (Num 0)"
  by (simp add: ear_defs sample_defs)

lemma open_frame_ear: "frame_ear default_config (frame_of open_face) = Inr (Num (1 / 2))"
  by (simp add: ear_defs sample_defs)

lemma frame_of_detected: "face_detected (frame_of face)"
  by (simp add: frame_of_def face_detected_def)

lemma closed_frame_step:
  assumes "CONFIG st = default_config"
  shows "onResults t (frame_of closed_face) st =
     Inr (if 19 \<le> closedEyeCounter st
          then triggerAlarm t
                 (st\<lparr>closedEyeCounter := closedEyeCounter st + 1, earWarning := True\<rparr>)
          else stopAlarm
                 (st\<lparr>closedEyeCounter := closedEyeCounter st + 1, earWarning := True\<rparr>))"
proof -
  have fe: "frame_ear (CONFIG st) (frame_of closed_face) = Inr (Num 0)"
    by (simp add: assms closed_frame_ear)
  show ?thesis
    by (simp add: onResults_face[OF frame_of_detected fe] Let_def assms default_config_def
        threshold_double')
qed

lemma open_frame_step:
  assumes "CONFIG st = default_config"
  shows "onResults t (frame_of open_face) st =
     Inr (stopAlarm (st\<lparr>closedEyeCounter := 0, earWarning := False\<rparr>))"
proof -
  have fe: "frame_ear (CONFIG st) (frame_of open_face) = Inr (Num (1 / 2))"
    by (simp add: assms open_frame_ear)
  show ?thesis
    by (simp add: onResults_face[OF frame_of_detected fe] Let_def assms default_config_def
        threshold_double')
qed

lemma low_run_awake:
  assumes "CONFIG st = default_config" and "\<not> alarmOn st"
    and "closedEyeCounter st + Suc n < 20"
  shows "run_frames (replicate (Suc n) (t, frame_of closed_face)) st =
     Inr (st\<lparr>closedEyeCounter := closedEyeCounter st + Suc n, earWarning := True\<rparr>)"
  using assms
proof (induction n arbitrary: st)
  case 0
  then show ?case
    by (simp add: closed_frame_step stopAlarm_def)
next
  case (Suc n)
  let ?s1 = "st\<lparr>closedEyeCounter := closedEyeCounter st + 1, earWarning := True\<rparr>"
  have step: "onResults t (frame_of closed_face) st = Inr ?s1"
    using Suc.prems by (simp add: closed_frame_step stopAlarm_def)
  have "run_frames (replicate (Suc n) (t, frame_of closed_face)) ?s1 =
     Inr (?s1\<lparr>closedEyeCounter := closedEyeCounter ?s1 + Suc n, earWarning := True\<rparr>)"
    using Suc.prems by (intro Suc.IH) simp_all
  then show ?case
    using step by simp
qed

lemma low_run_alarm:
  assumes "CONFIG st = default_config" and "\<not> alarmOn st" and "closedEyeCounter st = 0"
  shows "run_frames (replicate 20 (t, frame_of closed_face)) st =
     Inr (triggerAlarm t (st\<lparr>closedEyeCounter := 20, earWarning := True\<rparr>))"
proof -
  have r: "replicate 20 (t, frame_of closed_face)
      = replicate (Suc 18) (t, frame_of closed_face) @ [(t, frame_of closed_face)]"
    using replicate_add[of "Suc 18" 1 "(t, frame_of closed_face)"] by simp
  have a: "run_frames (replicate (Suc 18) (t, frame_of closed_face)) st =
     Inr (st\<lparr>closedEyeCounter := closedEyeCounter st + Suc 18, earWarning := True\<rparr>)"
    using assms by (intro low_run_awake) simp_all
  show ?thesis
    unfolding r run_frames_append a
    by (simp add: closed_frame_step assms)
qed

lemma reach_alarmed_state:
  "run_frames (replicate 20 (100000, frame_of closed_face)) initial_state = Inr alarmed_state"
  unfolding alarmed_state_def
  by (rule low_run_alarm) (simp_all add: initial_state_def)

section \<open>The drowsiness state machine\<close>

text \<open>
  C1. From the awake state with the counter at 0, a stream of frames that all show a face
  with an averaged EAR below the threshold is processed without error; after the first
  \<open>k\<close> of them the counter is \<open>k\<close>, the alarm is on exactly when \<open>k\<close> has reached
  \<^verbatim>\<open>CONSEC_FRAMES_THRESHOLD\<close>, and \<^verbatim>\<open>triggerAlarm\<close> has started the alarm exactly once if
  it has and not at all if it has not. So the alarm starts on the frame whose number is
  the threshold (the 20th by default) and on no earlier one.
\<close>

theorem C1_alarm_on_threshold_frame:
  assumes "0 < CONSEC_FRAMES_THRESHOLD (CONFIG st)"
    and "\<not> alarmOn st" and "closedEyeCounter st = 0"
    and "\<forall>f \<in> set fs. low_frame (CONFIG st) (snd f)"
    and "k \<le> length fs"
  shows "\<exists>st'. run_frames (take k fs) st = Inr st'
     \<and> closedEyeCounter st' = k
     \<and> (alarmOn st' \<longleftrightarrow> CONSEC_FRAMES_THRESHOLD (CONFIG st) \<le> k)
     \<and> alarm_events (events st') = alarm_events (events st) @
          (if CONSEC_FRAMES_THRESHOLD (CONFIG st) \<le> k then [AlarmStarted] else [])"
proof -
  have low: "\<forall>f \<in> set (take k fs). low_frame (CONFIG st) (snd f)"
    using assms(4) by (auto dest: in_set_takeD)
  have inv: "alarmOn st \<longleftrightarrow> CONSEC_FRAMES_THRESHOLD (CONFIG st) \<le> closedEyeCounter st"
    using assms(1-3) by simp
  have len: "length (take k fs) = k"
    using assms(5) by simp
  from run_low_frames[OF low inv] show ?thesis
    unfolding len using assms(2,3) by auto
qed

theorem C1_alarm_on_threshold_frame_witness:
  "(\<exists>st'. run_frames (replicate 20 (0, frame_of closed_face)) initial_state = Inr st'
      \<and> closedEyeCounter st' = 20 \<and> alarmOn st'
      \<and> alarm_events (events st') = [AlarmStarted])
   \<and> (\<exists>st'. run_frames (replicate 19 (0, frame_of closed_face)) initial_state = Inr st'
      \<and> closedEyeCounter st' = 19 \<and> \<not> alarmOn st'
      \<and> alarm_events (events st') = [])"
proof -
  have cfg: "CONFIG initial_state = default_config"
    by (simp add: initial_state_def)
  have h1: "0 < CONSEC_FRAMES_THRESHOLD (CONFIG initial_state)"
    by (simp add: initial_state_def default_config_def)
  have h2: "\<not> alarmOn initial_state" and h3: "closedEyeCounter initial_state = 0"
    by (simp_all add: initial_state_def)
  have h4: "\<forall>f \<in> set (replicate 20 (0::int, frame_of closed_face)).
      low_frame (CONFIG initial_state) (snd f)"
    by (simp add: cfg low_closed_frame)
  have ev: "events initial_state = []" by (simp add: initial_state_def)
  have thr: "CONSEC_FRAMES_THRESHOLD (CONFIG initial_state) = 20"
    by (simp add: initial_state_def default_config_def)
  from C1_alarm_on_threshold_frame[OF h1 h2 h3 h4, of 20]
       C1_alarm_on_threshold_frame[OF h1 h2 h3 h4, of 19]
  show ?thesis by (simp add: ev thr)
qed

text \<open>
  C2. A frame that shows a face with an averaged EAR at or above the threshold (the
  low-EAR test is the strict \<^verbatim>\<open><\<close>) sets the counter to 0 and leaves the alarm off: if it
  was on, \<^verbatim>\<open>stopAlarm\<close> runs on this very frame, and otherwise nothing is emitted. The
  frame threshold is taken positive, as a counter of 0 would reach a threshold of 0.
\<close>

theorem C2_recovery_resets_and_clears:
  assumes "0 < CONSEC_FRAMES_THRESHOLD (CONFIG st)"
    and "high_frame (CONFIG st) res"
  shows "\<exists>st'. onResults now res st = Inr st'
     \<and> closedEyeCounter st' = 0
     \<and> \<not> alarmOn st'
     \<and> events st' = events st @ (if alarmOn st then [AlarmStopped] else [])"
proof -
  from assms(2) obtain e where fd: "face_detected res"
    and fe: "frame_ear (CONFIG st) res = Inr e"
    and ge: "js_ge e (EAR_THRESHOLD (CONFIG st))"
    by (auto simp: high_frame_def split: sum.splits)
  have nlt: "\<not> js_lt e (EAR_THRESHOLD (CONFIG st))"
    using ge by (rule js_ge_not_lt)
  show ?thesis
    using assms(1) by (simp add: onResults_face[OF fd fe] nlt Let_def stopAlarm_fields)
qed

theorem C2_recovery_resets_and_clears_witness:
  "\<exists>st'. onResults 100500 (frame_of open_face) sms_sent_state = Inr st'
     \<and> closedEyeCounter st' = 0 \<and> \<not> alarmOn st'
     \<and> events st' = [AlarmStarted, SmsAttempt 100000, AlarmStopped]"
proof -
  have h1: "0 < CONSEC_FRAMES_THRESHOLD (CONFIG sms_sent_state)"
    by (simp add: sms_sent_state_fields default_config_def)
  have h2: "high_frame (CONFIG sms_sent_state) (frame_of open_face)"
    by (simp add: sms_sent_state_fields high_open_frame)
  from C2_recovery_resets_and_clears[OF h1 h2, of 100500] show ?thesis
    by (simp add: sms_sent_state_fields)
qed

subsection \<open>Frames without a face\<close>

lemma onResults_no_face:
  assumes "\<not> face_detected res"
  shows "onResults now res st =
     Inr (if alarmOn st then st\<lparr>earWarning := False\<rparr>
          else st\<lparr>earWarning := False, statusText := ''No face detected'',
                 statusDot := []\<rparr>)"
  using assms by (simp add: onResults_def updateStatus_def Let_def)

lemma no_face_not_detected: "\<not> face_detected no_face"
  by (simp add: no_face_def face_detected_def)

lemma after_low_frames:
  "\<exists>st'. run_frames (replicate n (t, frame_of closed_face)) initial_state = Inr st'
     \<and> CONFIG st' = default_config \<and> closedEyeCounter st' = n
     \<and> (alarmOn st' \<longleftrightarrow> 20 \<le> n)"
proof -
  have low: "\<forall>f \<in> set (replicate n (t, frame_of closed_face)).
      low_frame (CONFIG initial_state) (snd f)"
    by (simp add: initial_state_def low_closed_frame)
  have inv: "alarmOn initial_state \<longleftrightarrow>
      CONSEC_FRAMES_THRESHOLD (CONFIG initial_state) \<le> closedEyeCounter initial_state"
    by (simp add: initial_state_def default_config_def)
  from run_low_frames[OF low inv] show ?thesis
    by (auto simp: initial_state_def default_config_def)
qed

text \<open>
  C3, as stated, fails: five low frames followed by a frame without a face leave the
  counter at 5. The branch of \<^verbatim>\<open>onResults\<close> for a missing face writes the EAR display and
  the status line only.
\<close>

theorem C3_no_face_reset_counterexample:
  "observe closedEyeCounter
     (run_frames (replicate 5 (0, frame_of closed_face) @ [(0, no_face)]) initial_state)
   = Some 5"
proof -
  from after_low_frames[of 5 0] obtain s where
    s: "run_frames (replicate 5 (0, frame_of closed_face)) initial_state = Inr s"
      "closedEyeCounter s = 5"
    by auto
  show ?thesis
    by (simp add: run_frames_append s observe_def onResults_no_face[OF no_face_not_detected])
qed

text \<open>
  C3, amended. A frame without a face is processed without error and leaves the counter
  as it was.
\<close>

theorem C3_no_face_keeps_counter:
  assumes "\<not> face_detected res"
  shows "\<exists>st'. onResults now res st = Inr st'
     \<and> closedEyeCounter st' = closedEyeCounter st"
  using assms by (simp add: onResults_no_face)

theorem C3_no_face_keeps_counter_witness:
  "\<exists>st'. onResults 0 no_face (initial_state\<lparr>closedEyeCounter := 5\<rparr>) = Inr st'
     \<and> closedEyeCounter st' = 5"
  using C3_no_face_keeps_counter[of no_face 0 "initial_state\<lparr>closedEyeCounter := 5\<rparr>"]
  by (simp add: no_face_not_detected)

text \<open>
  C4, as stated, fails: after twenty low frames the alarm is on, and a frame without a
  face leaves it on.
\<close>

theorem C4_no_face_clears_alarm_counterexample:
  "observe alarmOn
     (run_frames (replicate 20 (100000, frame_of closed_face) @ [(100000, no_face)])
        initial_state)
   = Some True"
proof -
  from after_low_frames[of 20 100000] obtain s where
    s: "run_frames (replicate 20 (100000, frame_of closed_face)) initial_state = Inr s"
      "alarmOn s"
    by auto
  show ?thesis
    by (simp add: run_frames_append s observe_def onResults_no_face[OF no_face_not_detected])
qed

text \<open>
  C4, amended. While the alarm is on, a frame without a face changes nothing but the
  warning mark of the EAR display: the alarm stays on, no \<open>AlarmStopped\<close> is emitted and
  the beeper keeps its timer. (The status line is written only when the alarm is off.)
\<close>

theorem C4_no_face_keeps_alarm:
  assumes "\<not> face_detected res" and "alarmOn st"
  shows "onResults now res st = Inr (st\<lparr>earWarning := False\<rparr>)"
  using assms by (simp add: onResults_no_face)

theorem C4_no_face_keeps_alarm_witness:
  "onResults 100500 no_face sms_sent_state = Inr (sms_sent_state\<lparr>earWarning := False\<rparr>)
   \<and> alarmOn (sms_sent_state\<lparr>earWarning := False\<rparr>)"
proof -
  have on: "alarmOn sms_sent_state"
    by (simp add: sms_sent_state_fields)
  from C4_no_face_keeps_alarm[OF no_face_not_detected on, of 100500] on
  show ?thesis by simp
qed

subsection \<open>Eyes of width zero\<close>

lemma deref_present:
  assumes "eye_present landmarks eyeIndices" and "i < 6"
  shows "deref (getEyeLandmarks landmarks eyeIndices) i
     = Inr (eye_point landmarks eyeIndices i)"
proof -
  from assms have len: "i < length eyeIndices" by (simp add: eye_present_def)
  from assms have
    "\<forall>n < length (take 6 eyeIndices). take 6 eyeIndices ! n < length landmarks"
    by (simp add: eye_present_def list_all_length)
  with assms(2) len have "eyeIndices ! i < length landmarks" by simp
  with len show ?thesis
    by (simp add: deref_def getEyeLandmarks_def elem_at_def eye_point_def)
qed

text \<open>The numerator \<^verbatim>\<open>A + B\<close> of an eye is not negative.\<close>

lemma calculateEAR_present:
  assumes "eye_present landmarks eyeIndices"
  shows "\<exists>h. not_negative h \<and> calculateEAR (getEyeLandmarks landmarks eyeIndices)
     = Inr (js_div h (js_mul (Num 2) (eye_width landmarks eyeIndices)))"
proof -
  let ?h = "js_add
    (distance (eye_point landmarks eyeIndices 1) (eye_point landmarks eyeIndices 5))
    (distance (eye_point landmarks eyeIndices 2) (eye_point landmarks eyeIndices 4))"
  have "not_negative ?h"
    by (intro not_negative_add distance_not_negative)
  moreover have "calculateEAR (getEyeLandmarks landmarks eyeIndices)
     = Inr (js_div ?h (js_mul (Num 2) (eye_width landmarks eyeIndices)))"
    by (simp add: calculateEAR_def deref_present[OF assms] eye_width_def Let_def)
  ultimately show ?thesis by blast
qed

lemma collapsed_face_eyes:
  "eye_present collapsed_face (RIGHT_EYE default_config)"
  "eye_present collapsed_face (LEFT_EYE default_config)"
  "eye_width collapsed_face (RIGHT_EYE default_config) = Num 0"
  by (simp_all add: eye_present_def eye_width_def eye_point_def distance_same
      collapsed_face_def default_config_def)

lemma zero_width_frame:
  assumes "face_detected res"
    and "landmarks = the (multiFaceLandmarks res) ! 0"
    and "eye_present landmarks (RIGHT_EYE (CONFIG st))"
    and "eye_present landmarks (LEFT_EYE (CONFIG st))"
    and "eye_width landmarks (RIGHT_EYE (CONFIG st)) = Num 0
         \<or> eye_width landmarks (LEFT_EYE (CONFIG st)) = Num 0"
  shows "\<exists>e. frame_ear (CONFIG st) res = Inr e
     \<and> \<not> js_lt e (EAR_THRESHOLD (CONFIG st))"
proof -
  let ?wr = "eye_width landmarks (RIGHT_EYE (CONFIG st))"
  let ?wl = "eye_width landmarks (LEFT_EYE (CONFIG st))"
  from calculateEAR_present[OF assms(3)] obtain hr where
    hr: "not_negative hr" "calculateEAR (getEyeLandmarks landmarks (RIGHT_EYE (CONFIG st)))
      = Inr (js_div hr (js_mul (Num 2) ?wr))"
    by blast
  from calculateEAR_present[OF assms(4)] obtain hl where
    hl: "not_negative hl" "calculateEAR (getEyeLandmarks landmarks (LEFT_EYE (CONFIG st)))
      = Inr (js_div hl (js_mul (Num 2) ?wl))"
    by blast
  define r where "r = js_div hr (js_mul (Num 2) ?wr)"
  define l where "l = js_div hl (js_mul (Num 2) ?wl)"
  have wr: "not_negative (js_mul (Num 2) ?wr)" and wl: "not_negative (js_mul (Num 2) ?wl)"
    by (simp_all add: eye_width_def not_negative_twice distance_not_negative)
  have rn: "not_negative r" unfolding r_def using hr(1) wr by (rule not_negative_div)
  have ln: "not_negative l" unfolding l_def using hl(1) wl by (rule not_negative_div)
  have fe: "frame_ear (CONFIG st) res = Inr (js_div (js_add r l) (Num 2))"
    by (simp add: frame_ear_def avgEAR_def Let_def assms(2)[symmetric] hr(2) hl(2)
        r_def l_def)
  have "\<not> js_lt (js_div (js_add r l) (Num 2)) (EAR_THRESHOLD (CONFIG st))"
    using assms(5)
  proof
    assume "?wr = Num 0"
    then have "r = PInf \<or> r = NaN"
      unfolding r_def using div_by_zero_width[OF hr(1)] by simp
    then show ?thesis using ln by (rule avg_not_low(1))
  next
    assume "?wl = Num 0"
    then have "l = PInf \<or> l = NaN"
      unfolding l_def using div_by_zero_width[OF hl(1)] by simp
    then show ?thesis using rn by (rule avg_not_low(2))
  qed
  with fe show ?thesis by blast
qed

text \<open>
  C5, as stated, fails in its second half: five low frames followed by a face whose eyes
  have width zero leave the counter at 0, not at 5.
\<close>

theorem C5_zero_width_skips_counterexample:
  "observe closedEyeCounter
     (run_frames (replicate 5 (0, frame_of closed_face) @ [(0, frame_of collapsed_face)])
        initial_state)
   = Some 0"
proof -
  from after_low_frames[of 5 0] obtain s where
    s: "run_frames (replicate 5 (0, frame_of closed_face)) initial_state = Inr s"
      "CONFIG s = default_config"
    by auto
  have fd: "face_detected (frame_of collapsed_face)"
    by (simp add: frame_of_def face_detected_def)
  have lm: "collapsed_face = the (multiFaceLandmarks (frame_of collapsed_face)) ! 0"
    by (simp add: frame_of_def)
  from zero_width_frame[OF fd lm, of s] collapsed_face_eyes s(2)
  obtain e where e: "frame_ear (CONFIG s) (frame_of collapsed_face) = Inr e"
    "\<not> js_lt e (EAR_THRESHOLD (CONFIG s))"
    by auto
  show ?thesis
    by (simp add: run_frames_append s(1) observe_def onResults_face[OF fd e(1)] e(2)
        Let_def triggerAlarm_fields stopAlarm_fields)
qed

text \<open>
  C5, amended. A frame that shows a face with all twelve eye landmarks, one of whose eyes
  has horizontal distance zero, is processed without any error (the division yields an
  infinity or \<open>NaN\<close>, neither of which is below the threshold), and the counter is reset
  to 0. The horizontal distance is the one \<^verbatim>\<open>distance\<close> computes: it is zero when the two
  corners coincide (lemma \<open>distance_same\<close>), and also when they are so close that the
  squares of the differences underflow.
\<close>

theorem C5_zero_width_resets_counter:
  assumes "face_detected res"
    and "landmarks = the (multiFaceLandmarks res) ! 0"
    and "eye_present landmarks (RIGHT_EYE (CONFIG st))"
    and "eye_present landmarks (LEFT_EYE (CONFIG st))"
    and "eye_width landmarks (RIGHT_EYE (CONFIG st)) = Num 0
         \<or> eye_width landmarks (LEFT_EYE (CONFIG st)) = Num 0"
  shows "\<exists>st'. onResults now res st = Inr st' \<and> closedEyeCounter st' = 0"
proof -
  from zero_width_frame[OF assms] obtain e where
    e: "frame_ear (CONFIG st) res = Inr e" "\<not> js_lt e (EAR_THRESHOLD (CONFIG st))"
    by blast
  show ?thesis
    by (simp add: onResults_face[OF assms(1) e(1)] e(2) Let_def triggerAlarm_fields
        stopAlarm_fields)
qed

theorem C5_zero_width_resets_counter_witness:
  "\<exists>st'. onResults 0 (frame_of collapsed_face) (initial_state\<lparr>closedEyeCounter := 5\<rparr>)
       = Inr st' \<and> closedEyeCounter st' = 0"
proof -
  have fd: "face_detected (frame_of collapsed_face)"
    by (simp add: frame_of_def face_detected_def)
  have lm: "collapsed_face = the (multiFaceLandmarks (frame_of collapsed_face)) ! 0"
    by (simp add: frame_of_def)
  have cfg: "CONFIG (initial_state\<lparr>closedEyeCounter := 5\<rparr>) = default_config"
    by (simp add: initial_state_def)
  from C5_zero_width_resets_counter[OF fd lm,
      of "initial_state\<lparr>closedEyeCounter := 5\<rparr>" 0]
  show ?thesis
    by (simp add: cfg collapsed_face_eyes)
qed

text \<open>
  C10. Whenever \<^verbatim>\<open>onResults\<close> has processed a frame that shows a face, the alarm is on
  if and only if the counter has reached \<^verbatim>\<open>CONSEC_FRAMES_THRESHOLD\<close>, whatever the state
  before the frame was.
\<close>

theorem C10_alarm_iff_counter:
  assumes "face_detected res" and "onResults now res st = Inr st'"
  shows "alarmOn st' \<longleftrightarrow> CONSEC_FRAMES_THRESHOLD (CONFIG st') \<le> closedEyeCounter st'"
proof -
  from assms obtain e where fe: "frame_ear (CONFIG st) res = Inr e"
    by (cases "frame_ear (CONFIG st) res") (auto simp: onResults_def frame_ear_def Let_def)
  from assms(2) show ?thesis
    unfolding onResults_face[OF assms(1) fe]
    by (auto simp: Let_def triggerAlarm_fields stopAlarm_fields split: if_splits)
qed

theorem C10_alarm_iff_counter_witness:
  "\<exists>st'. onResults 0 (frame_of closed_face) (initial_state\<lparr>closedEyeCounter := 19\<rparr>)
       = Inr st'
     \<and> closedEyeCounter st' = 20 \<and> alarmOn st'"
proof -
  let ?s = "initial_state\<lparr>closedEyeCounter := 19\<rparr>"
  have cfg: "CONFIG ?s = default_config" by (simp add: initial_state_def)
  have low: "low_frame (CONFIG ?s) (frame_of closed_face)"
    by (simp add: cfg low_closed_frame)
  from onResults_low[OF low, of 0] obtain s' where
    s': "onResults 0 (frame_of closed_face) ?s = Inr s'" "CONFIG s' = CONFIG ?s"
      "closedEyeCounter s' = closedEyeCounter ?s + 1"
    by blast
  have fd: "face_detected (frame_of closed_face)"
    by (simp add: frame_of_def face_detected_def)
  have c: "closedEyeCounter s' = 20" using s'(3) by simp
  from C10_alarm_iff_counter[OF fd s'(1)] have "alarmOn s'"
    by (simp add: s'(2) cfg c default_config_def)
  with s'(1) c show ?thesis by blast
qed

section \<open>Geometry\<close>




section \<open>The notifier\<close>

lemma onResults_lastSmsTime:
  assumes "onResults now res st = Inr st'"
  shows "lastSmsTime st' = lastSmsTime st"
proof (cases "face_detected res")
  case True
  from assms True obtain e where fe: "frame_ear (CONFIG st) res = Inr e"
    by (cases "frame_ear (CONFIG st) res") (auto simp: onResults_def frame_ear_def Let_def)
  from assms show ?thesis
    unfolding onResults_face[OF True fe]
    by (auto simp: Let_def triggerAlarm_fields stopAlarm_fields split: if_splits)
next
  case False
  from assms show ?thesis
    by (auto simp: onResults_no_face[OF False] split: if_splits)
qed

text \<open>
  C6, as stated, fails: \<^verbatim>\<open>lastSmsTime\<close> is set only by a response that is ok. The
  alarm starts at time 100000 and its request fails; a frame with open eyes stops the
  alarm; twenty frames with closed eyes start it again at time 101000, one second after
  the first start, and \<^verbatim>\<open>fetch\<close> is called a second time.
\<close>

theorem C6_two_alarms_one_attempt_counterexample:
  "observe events
     (run_frames ((100500, frame_of open_face) # replicate 20 (101000, frame_of closed_face))
        (smsResponse 100000 False alarmed_state))
   = Some [AlarmStarted, SmsAttempt 100000, AlarmStopped, AlarmStarted, SmsAttempt 101000]"
proof -
  let ?s2 = "smsResponse 100000 False alarmed_state"
  let ?s3 = "stopAlarm (?s2\<lparr>closedEyeCounter := 0, earWarning := False\<rparr>)"
  have s3: "onResults 100500 (frame_of open_face) ?s2 = Inr ?s3"
    by (rule open_frame_step) (simp add: smsResponse_fields alarmed_state_fields)
  have f3: "CONFIG ?s3 = default_config" "\<not> alarmOn ?s3" "closedEyeCounter ?s3 = 0"
    "lastSmsTime ?s3 = 0" "events ?s3 = [AlarmStarted, SmsAttempt 100000, AlarmStopped]"
    by (simp_all add: stopAlarm_fields smsResponse_def alarmed_state_fields)
  have s4: "run_frames (replicate 20 (101000, frame_of closed_face)) ?s3 =
     Inr (triggerAlarm 101000 (?s3\<lparr>closedEyeCounter := 20, earWarning := True\<rparr>))"
    using f3(1-3) by (rule low_run_alarm)
  show ?thesis
    by (simp add: s3 s4 observe_def triggerAlarm_events f3 default_config_def)
qed

text \<open>
  C6, amended. Let the alarm start at \<open>now1\<close> and make an SMS attempt, stop, and start
  again at \<open>now2\<close>, not before \<open>now1\<close> and less than the cooldown after it. If the first
  attempt has been answered ok in between, the second start makes no attempt; if it has
  been answered not ok, or has not been answered yet, the second start makes a second
  attempt. In general \<^verbatim>\<open>sendSmsAlert\<close> makes an attempt exactly when the time since
  \<^verbatim>\<open>lastSmsTime\<close> is at least the cooldown, and \<^verbatim>\<open>lastSmsTime\<close> is the clock value read
  by the last attempt that was answered ok (0 at first).
\<close>

theorem C6_cooldown_after_success:
  assumes "\<not> alarmOn st"
    and "SMS_COOLDOWN_MS (CONFIG st) \<le> now1 - lastSmsTime st"
    and "now1 \<le> now2"
    and "now2 - now1 < SMS_COOLDOWN_MS (CONFIG st)"
  shows "events (triggerAlarm now2 (stopAlarm (smsResponse now1 ok (triggerAlarm now1 st))))
       = events st @ [AlarmStarted, SmsAttempt now1, AlarmStopped, AlarmStarted,
                      if ok then SmsSkipped else SmsAttempt now2]
     \<and> events (triggerAlarm now2 (stopAlarm (triggerAlarm now1 st)))
       = events st @ [AlarmStarted, SmsAttempt now1, AlarmStopped, AlarmStarted,
                      SmsAttempt now2]
     \<and> lastSmsTime (smsResponse now1 ok (triggerAlarm now1 st))
       = (if ok then now1 else lastSmsTime st)
     \<and> events (sendSmsAlert now st)
       = events st @ [if SMS_COOLDOWN_MS (CONFIG st) \<le> now - lastSmsTime st
                      then SmsAttempt now else SmsSkipped]"
  using assms by (simp add: notifier_fields sendSmsAlert_def)

theorem C6_cooldown_after_success_witness:
  "events (triggerAlarm 159999 (stopAlarm (smsResponse 100000 True
      (triggerAlarm 100000 initial_state))))
    = [AlarmStarted, SmsAttempt 100000, AlarmStopped, AlarmStarted, SmsSkipped]
   \<and> events (triggerAlarm 159999 (stopAlarm (smsResponse 100000 False
      (triggerAlarm 100000 initial_state))))
    = [AlarmStarted, SmsAttempt 100000, AlarmStopped, AlarmStarted, SmsAttempt 159999]
   \<and> events (triggerAlarm 159999 (stopAlarm (triggerAlarm 100000 initial_state)))
    = [AlarmStarted, SmsAttempt 100000, AlarmStopped, AlarmStarted, SmsAttempt 159999]
   \<and> events (sendSmsAlert 60000 initial_state) = [SmsAttempt 60000]
   \<and> events (sendSmsAlert 59999 initial_state) = [SmsSkipped]"
  using C6_cooldown_after_success[of initial_state 100000 159999 True 60000]
    C6_cooldown_after_success[of initial_state 100000 159999 False 59999]
  by (simp add: initial_state_def default_config_def)

section \<open>Stopping the session\<close>

lemma audio_inv_stopAlarm: "audio_inv st \<Longrightarrow> audio_inv (stopAlarm st)"
  by (auto simp: audio_inv_def audio_quiet_def alarm_defs)

lemma audio_inv_onResults:
  assumes "audio_inv st" and "onResults now res st = Inr st'"
  shows "audio_inv st'"
proof (cases "face_detected res")
  case True
  from assms(2) True obtain e where fe: "frame_ear (CONFIG st) res = Inr e"
    by (cases "frame_ear (CONFIG st) res") (auto simp: onResults_def frame_ear_def Let_def)
  have a: "audio_inv (st\<lparr>closedEyeCounter := n, earWarning := b\<rparr>)" for n b
    using assms(1) by (simp add: audio_inv_def audio_quiet_def)
  from assms(2) show ?thesis
    unfolding onResults_face[OF True fe]
    by (auto simp: Let_def audio_inv_triggerAlarm audio_inv_stopAlarm a split: if_splits)
next
  case False
  from assms show ?thesis
    by (auto simp: onResults_no_face[OF False] audio_inv_def audio_quiet_def
        split: if_splits)
qed

lemma audio_inv_alarmTick: "audio_inv st \<Longrightarrow> audio_inv (alarmTick st)"
  by (auto simp: audio_inv_def audio_quiet_def alarmTick_def split: option.splits)

lemma audio_inv_smsResponse: "audio_inv st \<Longrightarrow> audio_inv (smsResponse now ok st)"
  by (simp add: audio_inv_def audio_quiet_def smsResponse_def)

lemma audio_inv_saveSettings: "audio_inv st \<Longrightarrow> audio_inv (saveSettings input st)"
  by (simp add: audio_inv_def audio_quiet_def saveSettings_def Let_def)

lemma audio_inv_stopDetection: "audio_inv st \<Longrightarrow> audio_inv (stopDetection st)"
  by (auto simp: stopDetection_def audio_inv_def audio_quiet_def alarm_defs)

text \<open>
  C7, as stated, fails in one point: \<^verbatim>\<open>stopDetection\<close> does not assign \<^verbatim>\<open>lastSmsTime\<close>.
  After an SMS sent at time 100000 the variable still holds that time when the session has
  been stopped, not the initial 0.
\<close>

theorem C7_stop_resets_sms_time_counterexample:
  "lastSmsTime (stopDetection sms_sent_state) \<noteq> 0"
  by (simp add: stopDetection_def updateStatus_def Let_def stopAlarm_fields
      sms_sent_state_fields)

text \<open>
  C7, amended. Stopping the session sets the counter to 0 and the alarm off, emits
  \<open>AlarmStopped\<close> if the alarm was on, leaves the beeper quiet, and leaves \<^verbatim>\<open>lastSmsTime\<close>
  as it was. The state is one the module can be in: the beeper runs only while the alarm
  is on.
\<close>

theorem C7_stopDetection:
  assumes "audio_inv st"
  shows "closedEyeCounter (stopDetection st) = 0
     \<and> \<not> alarmOn (stopDetection st)
     \<and> \<not> isRunning (stopDetection st)
     \<and> lastSmsTime (stopDetection st) = lastSmsTime st
     \<and> events (stopDetection st) = events st @ (if alarmOn st then [AlarmStopped] else [])
     \<and> audio_quiet (stopDetection st)"
  using assms by (auto simp: stopDetection_def alarm_defs audio_inv_def audio_quiet_def)

theorem C7_stopDetection_witness:
  "closedEyeCounter (stopDetection sms_sent_state) = 0
     \<and> \<not> alarmOn (stopDetection sms_sent_state)
     \<and> lastSmsTime (stopDetection sms_sent_state) = 100000
     \<and> events (stopDetection sms_sent_state)
         = [AlarmStarted, SmsAttempt 100000, AlarmStopped]
     \<and> alarmOscillator sms_sent_state
     \<and> audio_quiet (stopDetection sms_sent_state)"
proof -
  have inv: "audio_inv sms_sent_state"
    unfolding sms_sent_state_def
    by (intro audio_inv_alarmTick audio_inv_smsResponse alarmed_state_fields(5))
  from C7_stopDetection[OF inv] show ?thesis
    by (simp add: sms_sent_state_fields sms_sent_state_beeps)
qed

section \<open>Saving the SMS recipient\<close>

lemma startsWith_plus: "startsWith s (ascii ''+'') \<longleftrightarrow> s \<noteq> [] \<and> hd s = 0x2B"
  by (cases s) (simp_all add: startsWith_def ascii_def)

text \<open>
  C8. The save handler trims the input. A trimmed input of fewer than 10 characters is
  rejected: the status element gets the error class and the error message, and neither
  \<^verbatim>\<open>localStorage\<close> nor \<^verbatim>\<open>CONFIG\<close> changes. Any other input is stored, in \<^verbatim>\<open>localStorage\<close> and in
  \<^verbatim>\<open>CONFIG.SMS_RECIPIENT\<close>, with a plus sign put in front unless it starts with one; so
  7780643862 is stored as +7780643862.
\<close>

theorem C8_save_recipient:
  "(length (trim input) < 10 \<longrightarrow>
      localStorage (saveSettings input st) = localStorage st
      \<and> CONFIG (saveSettings input st) = CONFIG st
      \<and> settingsClass (saveSettings input st) = ''settings-status error''
      \<and> settingsText (saveSettings input st)
          = 0x274C # ascii '' Please enter a valid phone number'')
   \<and> (10 \<le> length (trim input) \<longrightarrow>
      localStorage (saveSettings input st) ''wakeguard_sms_recipient''
        = Some (normalize_recipient (trim input))
      \<and> SMS_RECIPIENT (CONFIG (saveSettings input st)) = normalize_recipient (trim input)
      \<and> settingsClass (saveSettings input st) = ''settings-status success'')"
proof -
  have plus: "ascii ''+'' @ s = 0x2B # s" for s
    by (simp add: ascii_def)
  show ?thesis
    by (auto simp: saveSettings_def Let_def startsWith_plus plus normalize_recipient_def)
qed

theorem C8_save_recipient_witness:
  "localStorage (saveSettings (ascii ''7780643862'') initial_state) ''wakeguard_sms_recipient''
      = Some (ascii ''+7780643862'')
   \<and> SMS_RECIPIENT (CONFIG (saveSettings (ascii ''7780643862'') initial_state))
      = ascii ''+7780643862''
   \<and> localStorage (saveSettings (ascii '' 778064386 '') initial_state) = Map.empty
   \<and> CONFIG (saveSettings (ascii '' 778064386 '') initial_state) = default_config
   \<and> settingsClass (saveSettings (ascii '' 778064386 '') initial_state)
      = ''settings-status error''"
proof -
  have t1: "trim (ascii ''7780643862'') = ascii ''7780643862''"
    by (simp add: trim_def ascii_def is_white_space_def)
  have t2: "trim (ascii '' 778064386 '') = ascii ''778064386''"
    by (simp add: trim_def ascii_def is_white_space_def)
  from C8_save_recipient[of "ascii ''7780643862''" initial_state]
       C8_save_recipient[of "ascii '' 778064386 ''" initial_state]
  show ?thesis
    unfolding t1 t2
    by (simp add: normalize_recipient_def ascii_def initial_state_def)
qed

end
